theory Spec2Isabelle
  imports Complex_Main
begin

section \<open>The image exporter: values, exceptions and the outside world\<close>

text \<open>
  This theory embeds \<open>posthog/tasks/exports/image_exporter.py\<close>. The module drives a
  headless browser through Selenium, so almost everything it does is a call into a
  collaborator that may return or raise. The embedding makes that explicit:
  \<^item> every Python exception that the module's \<open>except Exception\<close> clauses can see is
    a value of type \<open>exn\<close>; a computation returns \<open>Inl e\<close> when it raises \<open>e\<close>;
  \<^item> the outcome of every collaborator call (does it raise, what does the page look
    like, is the screenshot file written) is read from a \<open>world\<close>, indexed by the call
    site, so that a theorem quantified over all worlds covers every failure pattern;
  \<^item> the calls made are appended to a trace, which is what the theorems inspect when
    they speak about calls that happen once, never, or in some order.
  Interrupts outside the \<open>Exception\<close> hierarchy (\<open>KeyboardInterrupt\<close>, \<open>SystemExit\<close>) are
  not modelled, and the write-only observability sinks (logger, error-report scope,
  counters, the reachability log) are recorded in the trace but never raise.
\<close>

datatype exn =
    TimeoutException
  | NotImplementedError string
  | GenericException string
  | TypeError
  | FileNotFoundError
  | OtherException nat

text \<open>
  The values \<open>driver.execute_script\<close> can hand back to Python for the scripts of this
  module: \<open>None\<close>, an \<open>int\<close> or a \<open>float\<close>. A finite float is carried as the rational it
  denotes.
\<close>

datatype py_value = PyNone | PyInt int | PyFloat rat

datatype js_value = JsUndefined | JsNumber rat

text \<open>
  What the scripts read from the rendered page: the bounding-box height of the first
  element matching each of the two container selectors (if any), the document's scroll
  height, and the \<open>offsetWidth\<close> of the first table (if any).
\<close>

record dom =
  InsightCard__viz :: "rat option"
  ExportedInsight__content :: "rat option"
  scrollHeight :: int
  table_offsetWidth :: "int option"

text \<open>The three JavaScript snippets passed to \<open>execute_script\<close>.\<close>

datatype script = MeasureHeight | TableWidth | SettleDelay nat

fun run_script :: "script \<Rightarrow> dom \<Rightarrow> js_value" where
  "run_script MeasureHeight d =
     (let element = (case InsightCard__viz d of
                       Some r \<Rightarrow> Some r
                     | None \<Rightarrow> ExportedInsight__content d)
      in case element of
           Some rect_height \<Rightarrow> JsNumber (max rect_height (of_int (scrollHeight d)))
         | None \<Rightarrow> JsNumber (of_int (scrollHeight d)))"
| "run_script TableWidth d =
     (case table_offsetWidth d of
        Some w \<Rightarrow> JsNumber (of_int w * (3 / 2))
      | None \<Rightarrow> JsUndefined)"
| "run_script (SettleDelay ms) d = JsUndefined"

text \<open>
  The WebDriver wire format: \<open>undefined\<close> arrives as \<open>None\<close>, a JavaScript number with an
  integral value arrives as a Python \<open>int\<close>, any other number as a \<open>float\<close>.
\<close>

fun to_python :: "js_value \<Rightarrow> py_value" where
  "to_python JsUndefined = PyNone"
| "to_python (JsNumber r) = (if of_int \<lfloor>r\<rfloor> = r then PyInt \<lfloor>r\<rfloor> else PyFloat r)"

text \<open>Python's \<open>value + n\<close> for an \<open>int\<close> \<open>n\<close>; \<open>None + n\<close> raises \<open>TypeError\<close>.\<close>

fun py_add_int :: "py_value \<Rightarrow> int \<Rightarrow> exn + py_value" where
  "py_add_int (PyInt a) n = Inr (PyInt (a + n))"
| "py_add_int (PyFloat a) n = Inr (PyFloat (a + of_int n))"
| "py_add_int PyNone n = Inl TypeError"

text \<open>
  The call sites at which the world decides an outcome. Each is reached at most once in a
  run, so one outcome per site covers every behaviour of the collaborators. The three
  \<open>set_window_size\<close> calls, the four \<open>execute_script\<close> calls and the three
  \<open>save_screenshot\<close> calls are separate sites.
\<close>

datatype site =
    At_process_query_dict
  | At_makedirs
  | At_get_public_access_token
  | At_get_driver
  | At_set_window_size_initial
  | At_get
  | At_wait_marker
  | At_wait_spinner
  | At_spinner_screenshot
  | At_measure_height
  | At_table_width
  | At_set_window_size_provisional
  | At_settle
  | At_final_height
  | At_set_window_size_final
  | At_save_screenshot
  | At_diag_get_log
  | At_diag_screenshot
  | At_quit
  | At_read_image
  | At_save_content

text \<open>
  The world: \<open>settings.SITE_URL\<close> (empty when unset), the identifier \<open>uuid.uuid4()\<close>
  returns, the token \<open>get_public_access_token\<close> returns, the function \<open>absolute_uri\<close> of
  \<open>posthog.utils\<close> (a parameter: its code is not part of this module), and for each site
  whether the call raises, the page a script sees, and whether a screenshot call leaves
  the file on disk.
\<close>

record world =
  SITE_URL :: string
  uuid4 :: string
  access_token :: string
  absolute_uri :: "string \<Rightarrow> string"
  raises :: "site \<Rightarrow> exn option"
  page :: "site \<Rightarrow> dom"
  writes_file :: "site \<Rightarrow> bool"

record exported_asset =
  asset_id :: nat
  team_id :: nat
  insight :: "nat option"
  dashboard :: "nat option"
  export_format :: string

text \<open>
  The trace records every call into a collaborator, with the arguments that matter, and
  the entry into the two inner functions of the module (\<open>EnterExportToPng\<close>,
  \<open>EnterScreenshotAsset\<close> with the four arguments it is called with). The waits carry
  their timeout and their selector. The tags set on the report scope and the export timer
  in \<open>export_image\<close> are left out.
\<close>

datatype event =
    ProcessQueryDict
  | EnterExportToPng
  | Makedirs string
  | GetPublicAccessToken
  | EnterScreenshotAsset string string int string
  | GetDriver
  | SetWindowSize int py_value
  | DriverGet string
  | WaitUntil nat string
  | WaitUntilNot nat string
  | ExecuteScript script
  | SaveScreenshot string
  | GetLog string
  | DriverQuit
  | OpenRead string
  | SaveContent
  | OsRemove string
  | LoggerInfo string
  | LoggerException string
  | LoggerError string
  | SetExtra string string
  | AddAttachment string
  | CaptureException "exn option"
  | LogErrorIfSiteUrlNotReachable
  | CounterInc string

text \<open>
  The state threaded through the module: the paths that exist on disk, the two local
  variables that the \<open>except\<close> and \<open>finally\<close> clauses read (\<open>driver\<close> of
  \<open>_screenshot_asset\<close>, true once a session is bound to it; \<open>image_path\<close> of
  \<open>_export_to_png\<close>, \<open>None\<close> until assigned), and the trace of calls so far.
\<close>

record state =
  files :: "string set"
  driver_var :: bool
  image_path_var :: "string option"
  trace :: "event list"

type_synonym 'a prog = "state \<Rightarrow> (exn + 'a) \<times> state"

section \<open>Control flow: sequencing, raise, try/except, try/finally\<close>

definition returnE :: "'a \<Rightarrow> 'a prog" where
  "returnE x = (\<lambda>s. (Inr x, s))"

definition raiseE :: "exn \<Rightarrow> 'a prog" where
  "raiseE e = (\<lambda>s. (Inl e, s))"

definition bindE :: "'a prog \<Rightarrow> ('a \<Rightarrow> 'b prog) \<Rightarrow> 'b prog" where
  "bindE m f = (\<lambda>s. case m s of
                      (Inl e, s') \<Rightarrow> (Inl e, s')
                    | (Inr x, s') \<Rightarrow> f x s')"

definition thenE :: "'a prog \<Rightarrow> 'b prog \<Rightarrow> 'b prog" where
  "thenE m n = bindE m (\<lambda>_. n)"

text \<open>\<open>try: m except C as e: h e\<close>, where \<open>catches\<close> decides membership in the class \<open>C\<close>.\<close>

definition try_except :: "'a prog \<Rightarrow> (exn \<Rightarrow> bool) \<Rightarrow> (exn \<Rightarrow> 'a prog) \<Rightarrow> 'a prog" where
  "try_except m catches h = (\<lambda>s. case m s of
                      (Inl e, s') \<Rightarrow> if catches e then h e s' else (Inl e, s')
                    | (Inr x, s') \<Rightarrow> (Inr x, s'))"

text \<open>
  \<open>try: m finally: fin\<close>. The clause always runs; if it raises, its exception replaces
  whatever \<open>m\<close> produced, otherwise the outcome of \<open>m\<close> stands.
\<close>

definition try_finally :: "'a prog \<Rightarrow> unit prog \<Rightarrow> 'a prog" where
  "try_finally m fin = (\<lambda>s. case m s of
                      (r, s') \<Rightarrow> (case fin s' of
                                    (Inl e, s'') \<Rightarrow> (Inl e, s'')
                                  | (Inr _, s'') \<Rightarrow> (r, s'')))"

text \<open>
  Membership in the two classes named by the module's \<open>except\<close> clauses. Every value of
  \<open>exn\<close> is an instance of \<open>Exception\<close>.
\<close>

definition Exception :: "exn \<Rightarrow> bool" where
  "Exception e = True"

definition is_TimeoutException :: "exn \<Rightarrow> bool" where
  "is_TimeoutException e = (e = TimeoutException)"

definition emit :: "event \<Rightarrow> unit prog" where
  "emit ev = (\<lambda>s. (Inr (), s\<lparr>trace := trace s @ [ev]\<rparr>))"

definition modify :: "(state \<Rightarrow> state) \<Rightarrow> unit prog" where
  "modify f = (\<lambda>s. (Inr (), f s))"

definition when_state :: "(state \<Rightarrow> bool) \<Rightarrow> unit prog \<Rightarrow> unit prog" where
  "when_state c m = (\<lambda>s. if c s then m s else (Inr (), s))"

text \<open>A call into a collaborator at a given site: recorded, then it raises if the world says so.\<close>

definition outcome :: "world \<Rightarrow> site \<Rightarrow> unit prog" where
  "outcome w k = (case raises w k of Some e \<Rightarrow> raiseE e | None \<Rightarrow> returnE ())"

definition external :: "world \<Rightarrow> site \<Rightarrow> event \<Rightarrow> unit prog" where
  "external w k ev = thenE (emit ev) (outcome w k)"

section \<open>The collaborators\<close>

definition TMP_DIR :: string where
  "TMP_DIR = ''/tmp''"

definition HEIGHT_OFFSET :: int where
  "HEIGHT_OFFSET = 85"

definition execute_script :: "world \<Rightarrow> site \<Rightarrow> script \<Rightarrow> py_value prog" where
  "execute_script w k scr =
     thenE (external w k (ExecuteScript scr))
           (returnE (to_python (run_script scr (page w k))))"

text \<open>
  \<open>driver.save_screenshot(path)\<close>: whether the file is on disk afterwards and whether the
  call raises are both up to the world.
\<close>

definition save_screenshot :: "world \<Rightarrow> site \<Rightarrow> string \<Rightarrow> unit prog" where
  "save_screenshot w k path =
     thenE (emit (SaveScreenshot path))
    (thenE (modify (\<lambda>s. if writes_file w k then s\<lparr>files := insert path (files s)\<rparr> else s))
           (outcome w k))"

text \<open>
  The file system is a set of paths and works as documented: \<open>os.remove\<close> deletes an
  existing file and raises \<open>FileNotFoundError\<close> otherwise; \<open>os.makedirs\<close> creates the
  directory unless it raises; opening a missing file raises \<open>FileNotFoundError\<close>.
\<close>

definition os_remove :: "string \<Rightarrow> unit prog" where
  "os_remove path =
     thenE (emit (OsRemove path))
           (\<lambda>s. if path \<in> files s then (Inr (), s\<lparr>files := files s - {path}\<rparr>)
                else (Inl FileNotFoundError, s))"

definition makedirs :: "world \<Rightarrow> string \<Rightarrow> unit prog" where
  "makedirs w path =
     thenE (external w At_makedirs (Makedirs path))
           (modify (\<lambda>s. s\<lparr>files := insert path (files s)\<rparr>))"

text \<open>\<open>with open(path, "rb") as f: f.read()\<close>; the bytes themselves play no role.\<close>

definition read_image :: "world \<Rightarrow> string \<Rightarrow> unit prog" where
  "read_image w path =
     thenE (emit (OpenRead path))
           (\<lambda>s. if path \<in> files s then outcome w At_read_image s
                else (Inl FileNotFoundError, s))"

definition get_public_access_token :: "world \<Rightarrow> string prog" where
  "get_public_access_token w =
     thenE (external w At_get_public_access_token GetPublicAccessToken)
           (returnE (access_token w))"

definition get_driver :: "world \<Rightarrow> unit prog" where
  "get_driver w = external w At_get_driver GetDriver"

section \<open>\<open>_screenshot_asset\<close>\<close>

text \<open>
  The width applied from the table hint (lines 187-190):
  \<^verbatim>\<open>
  if isinstance(width, int):
      width = max(int(screenshot_width), min(1800, width or screenshot_width))
  else:
      width = screenshot_width
  \<close>
\<close>

definition viewport_width :: "int \<Rightarrow> py_value \<Rightarrow> int" where
  "viewport_width screenshot_width width =
     (case width of
        PyInt n \<Rightarrow> max screenshot_width (min 1800 (if n \<noteq> 0 then n else screenshot_width))
      | _ \<Rightarrow> screenshot_width)"

text \<open>
  The wait for the spinner to go away (lines 150-166). Only \<open>TimeoutException\<close> is
  caught; the handler logs, tries a screenshot whose failure is dropped, and reports.
\<close>

definition stability_wait :: "world \<Rightarrow> string \<Rightarrow> string \<Rightarrow> unit prog" where
  "stability_wait w path url_to_render =
     try_except (external w At_wait_spinner (WaitUntilNot 20 ''Spinner'')) is_TimeoutException
       (\<lambda>e. thenE (emit (LoggerException ''image_exporter.timeout''))
            (thenE (emit (SetExtra ''url_to_render'' url_to_render))
            (thenE (try_except
                      (thenE (save_screenshot w At_spinner_screenshot path)
                             (emit (AddAttachment path)))
                      Exception (\<lambda>e. returnE ()))
                   (emit (CaptureException None)))))"

text \<open>
  The \<open>try\<close> block once the session is bound (lines 145-210): initial size, navigation,
  the two waits, measure, provisional resize, settle, re-measure, final resize, capture.
\<close>

definition screenshot_steps :: "world \<Rightarrow> string \<Rightarrow> string \<Rightarrow> int \<Rightarrow> string \<Rightarrow> unit prog" where
  "screenshot_steps w path url_to_render screenshot_width wait_for_css_selector =
     thenE (external w At_set_window_size_initial (SetWindowSize screenshot_width (PyInt 600)))
    (thenE (external w At_get (DriverGet url_to_render))
    (thenE (external w At_wait_marker (WaitUntil 20 wait_for_css_selector))
    (thenE (stability_wait w path url_to_render)
    (bindE (execute_script w At_measure_height MeasureHeight) (\<lambda>height.
     bindE (execute_script w At_table_width TableWidth) (\<lambda>hint.
     let width = viewport_width screenshot_width hint in
     bindE (\<lambda>s. (py_add_int height HEIGHT_OFFSET, s)) (\<lambda>h.
     thenE (external w At_set_window_size_provisional (SetWindowSize width h))
    (thenE (execute_script w At_settle (SettleDelay 500))
    (bindE (execute_script w At_final_height MeasureHeight) (\<lambda>final_height.
     bindE (\<lambda>s. (py_add_int final_height HEIGHT_OFFSET, s)) (\<lambda>h'.
     thenE (external w At_set_window_size_final (SetWindowSize width h'))
           (save_screenshot w At_save_screenshot path))))))))))))"

text \<open>The whole \<open>try\<close> block (lines 144-210): \<open>driver = get_driver()\<close>, then the steps.\<close>

definition screenshot_body :: "world \<Rightarrow> string \<Rightarrow> string \<Rightarrow> int \<Rightarrow> string \<Rightarrow> unit prog" where
  "screenshot_body w path url_to_render screenshot_width wait_for_css_selector =
     thenE (get_driver w)
    (thenE (modify (\<lambda>s. s\<lparr>driver_var := True\<rparr>))
           (screenshot_steps w path url_to_render screenshot_width wait_for_css_selector))"

text \<open>
  The \<open>except Exception as e\<close> clause (lines 211-229): two diagnostic actions, each in
  its own \<open>try ... except Exception: pass\<close>, then the report and the bare \<open>raise\<close>.
\<close>

definition failure_diagnostics :: "world \<Rightarrow> string \<Rightarrow> string \<Rightarrow> exn \<Rightarrow> unit prog" where
  "failure_diagnostics w path url_to_render e =
     thenE (emit (SetExtra ''url_to_render'' url_to_render))
    (thenE (when_state driver_var
              (thenE (try_except
                        (thenE (external w At_diag_get_log (GetLog ''browser''))
                               (emit (AddAttachment ''logs.txt'')))
                        Exception (\<lambda>e. returnE ()))
                     (try_except
                        (thenE (save_screenshot w At_diag_screenshot path)
                               (emit (AddAttachment path)))
                        Exception (\<lambda>e. returnE ()))))
    (thenE (emit (CaptureException (Some e)))
           (raiseE e)))"

text \<open>The \<open>finally\<close> clause (lines 230-232).\<close>

definition quit_driver :: "world \<Rightarrow> unit prog" where
  "quit_driver w = when_state driver_var (external w At_quit DriverQuit)"

definition screenshot_asset :: "world \<Rightarrow> string \<Rightarrow> string \<Rightarrow> int \<Rightarrow> string \<Rightarrow> unit prog" where
  "screenshot_asset w path url_to_render screenshot_width wait_for_css_selector =
     thenE (emit (EnterScreenshotAsset path url_to_render screenshot_width wait_for_css_selector))
    (thenE (modify (\<lambda>s. s\<lparr>driver_var := False\<rparr>))
           (try_finally
              (try_except
                 (screenshot_body w path url_to_render screenshot_width wait_for_css_selector)
                 Exception
                 (failure_diagnostics w path url_to_render))
              (quit_driver w)))"

section \<open>\<open>_export_to_png\<close> and \<open>export_image\<close>\<close>

text \<open>The branch on the asset's kind (lines 98-107).\<close>

definition render_target :: "world \<Rightarrow> exported_asset \<Rightarrow> string \<Rightarrow> (string \<times> string \<times> int) prog" where
  "render_target w exported_asset token =
     (if insight exported_asset \<noteq> None then
        returnE (absolute_uri w (''/exporter?token='' @ token @ ''&legend''),
                 ''.ExportedInsight'', 800)
      else if dashboard exported_asset \<noteq> None then
        returnE (absolute_uri w (''/exporter?token='' @ token), ''.InsightCard'', 1920)
      else
        raiseE (GenericException ''Export is missing required dashboard or insight ID''))"

text \<open>
  \<open>os.path.join(TMP_DIR, f"{image_id}.png")\<close>; the identifier is a UUID string, so the
  join puts a single slash between the two parts.
\<close>

definition tmp_image_path :: "world \<Rightarrow> string" where
  "tmp_image_path w = TMP_DIR @ ''/'' @ uuid4 w @ ''.png''"

text \<open>The \<open>try\<close> block of \<open>_export_to_png\<close> (lines 82-118).\<close>

definition export_body :: "world \<Rightarrow> exported_asset \<Rightarrow> unit prog" where
  "export_body w exported_asset =
     thenE (if SITE_URL w = [] then
              raiseE (GenericException
                ''The SITE_URL is not set. The exporter must have HTTP access to the web app in order to work'')
            else returnE ())
    (thenE (modify (\<lambda>s. s\<lparr>image_path_var := Some (tmp_image_path w)\<rparr>))
    (thenE (when_state (\<lambda>s. TMP_DIR \<notin> files s) (makedirs w TMP_DIR))
    (bindE (get_public_access_token w) (\<lambda>token.
     bindE (render_target w exported_asset token) (\<lambda>(url_to_render, wait_for_css_selector, screenshot_width).
     thenE (emit (LoggerInfo ''exporting_asset''))
    (thenE (screenshot_asset w (tmp_image_path w) url_to_render screenshot_width wait_for_css_selector)
    (thenE (read_image w (tmp_image_path w))
    (thenE (external w At_save_content SaveContent)
           (os_remove (tmp_image_path w))))))))))"

text \<open>The \<open>except Exception\<close> clause of \<open>_export_to_png\<close> (lines 120-127).\<close>

definition export_cleanup :: "exn \<Rightarrow> unit prog" where
  "export_cleanup e =
     thenE (\<lambda>s. case image_path_var s of
                  Some p \<Rightarrow> if p \<noteq> [] \<and> p \<in> files s then os_remove p s else (Inr (), s)
                | None \<Rightarrow> (Inr (), s))
    (thenE (emit LogErrorIfSiteUrlNotReachable)
           (raiseE e))"

definition export_to_png :: "world \<Rightarrow> exported_asset \<Rightarrow> unit prog" where
  "export_to_png w exported_asset =
     thenE (emit EnterExportToPng)
    (thenE (modify (\<lambda>s. s\<lparr>image_path_var := None\<rparr>))
           (try_except (export_body w exported_asset) Exception export_cleanup))"

definition export_image :: "world \<Rightarrow> exported_asset \<Rightarrow> unit prog" where
  "export_image w exported_asset =
     try_except
       (thenE (if insight exported_asset \<noteq> None
               then external w At_process_query_dict ProcessQueryDict
               else returnE ())
              (if export_format exported_asset = ''image/png'' then
                 thenE (export_to_png w exported_asset)
                       (emit (CounterInc ''EXPORT_SUCCEEDED_COUNTER''))
               else
                 raiseE (NotImplementedError
                   (''Export to format '' @ export_format exported_asset
                      @ '' is not supported for insights''))))
       Exception
       (\<lambda>e. thenE (emit (CaptureException (Some e)))
            (thenE (emit (LoggerError ''image_exporter.failed''))
            (thenE (emit (CounterInc ''EXPORT_FAILED_COUNTER''))
                   (raiseE e))))"

text \<open>A run starts with an empty trace, no locals bound, and whatever is on disk.\<close>

definition start :: "string set \<Rightarrow> state" where
  "start fs = \<lparr>files = fs, driver_var = False, image_path_var = None, trace = []\<rparr>"

section \<open>Observations on runs\<close>

text \<open>The widths passed to \<open>set_window_size\<close>, in call order, and the last of them.\<close>

fun viewport_widths :: "event list \<Rightarrow> int list" where
  "viewport_widths [] = []"
| "viewport_widths (SetWindowSize x h # evs) = x # viewport_widths evs"
| "viewport_widths (ev # evs) = viewport_widths evs"

definition final_viewport_width :: "event list \<Rightarrow> int option" where
  "final_viewport_width evs = (case rev (viewport_widths evs) of [] \<Rightarrow> None | x # _ \<Rightarrow> Some x)"

fun is_EnterScreenshotAsset :: "event \<Rightarrow> bool" where
  "is_EnterScreenshotAsset (EnterScreenshotAsset p u sw sel) = True"
| "is_EnterScreenshotAsset ev = False"

fun is_NotImplementedError :: "exn \<Rightarrow> bool" where
  "is_NotImplementedError (NotImplementedError msg) = True"
| "is_NotImplementedError e = False"

text \<open>The two exceptions \<open>_export_to_png\<close> raises itself.\<close>

definition missing_id_error :: exn where
  "missing_id_error = GenericException ''Export is missing required dashboard or insight ID''"

definition site_url_error :: exn where
  "site_url_error = GenericException
     ''The SITE_URL is not set. The exporter must have HTTP access to the web app in order to work''"

text \<open>
  The steps of \<open>_export_to_png\<close> that precede the branch on the asset's kind all pass:
  \<open>SITE_URL\<close> is set, the temporary directory exists or can be created, and the access
  token is issued.
\<close>

definition preflight_ok :: "world \<Rightarrow> string set \<Rightarrow> bool" where
  "preflight_ok w fs = (SITE_URL w \<noteq> [] \<and> (TMP_DIR \<in> fs \<or> raises w At_makedirs = None)
       \<and> raises w At_get_public_access_token = None)"

text \<open>The state in which the \<open>try\<close> block of \<open>_screenshot_asset\<close> starts.\<close>

definition entered :: "string \<Rightarrow> string \<Rightarrow> int \<Rightarrow> string \<Rightarrow> state \<Rightarrow> state" where
  "entered p u sw sel s =
     s\<lparr>trace := trace s @ [EnterScreenshotAsset p u sw sel], driver_var := False\<rparr>"

subsection \<open>Postconditions and invariants\<close>

text \<open>\<open>wp m Q s\<close>: running \<open>m\<close> from \<open>s\<close> ends with a result and a state that satisfy \<open>Q\<close>.\<close>

definition wp :: "'a prog \<Rightarrow> ((exn + 'a) \<Rightarrow> state \<Rightarrow> bool) \<Rightarrow> state \<Rightarrow> bool" where
  "wp m Q s = (case m s of (r, s') \<Rightarrow> Q r s')"

text \<open>A state predicate that a program keeps true, however it ends.\<close>

definition preserves :: "(state \<Rightarrow> bool) \<Rightarrow> 'a prog \<Rightarrow> bool" where
  "preserves I m = (\<forall>s. I s \<longrightarrow> I (snd (m s)))"

text \<open>A predicate that no step of a run can falsify: it survives every update of the state.\<close>

definition grows :: "(state \<Rightarrow> bool) \<Rightarrow> bool" where
  "grows I = ((\<forall>s ev. I s \<longrightarrow> I (s\<lparr>trace := trace s @ [ev]\<rparr>))
            \<and> (\<forall>s f. I s \<longrightarrow> I (s\<lparr>files := f\<rparr>))
            \<and> (\<forall>s b. I s \<longrightarrow> I (s\<lparr>driver_var := b\<rparr>))
            \<and> (\<forall>s p. I s \<longrightarrow> I (s\<lparr>image_path_var := p\<rparr>)))"

text \<open>A program whose result (returned value or exception) does not depend on the state.\<close>

definition oblivious :: "'a prog \<Rightarrow> bool" where
  "oblivious m = (\<forall>s t. fst (m s) = fst (m t))"

definition widths_ok :: "int \<Rightarrow> state \<Rightarrow> bool" where
  "widths_ok sw s = (\<forall>x \<in> set (viewport_widths (trace s)). sw \<le> x \<and> x \<le> max sw 1800)"

definition quit_counted :: "nat \<Rightarrow> bool \<Rightarrow> state \<Rightarrow> bool" where
  "quit_counted c b s = (count_list (trace s) DriverQuit = c \<and> driver_var s = b)"

subsection \<open>The sizing rules in the specification's words\<close>

text \<open>
  The provisional width as the specification words it:
  \<open>max(requested_width, min(1800, width_hint or requested_width))\<close> when the hint resolves to
  a number, the requested width otherwise.
\<close>

definition spec_viewport_width :: "int \<Rightarrow> js_value \<Rightarrow> rat" where
  "spec_viewport_width requested_width width_hint =
     (case width_hint of
        JsNumber h \<Rightarrow> max (of_int requested_width)
                        (min 1800 (if h \<noteq> 0 then h else of_int requested_width))
      | JsUndefined \<Rightarrow> of_int requested_width)"

text \<open>
  The measure pass as the specification words it: the visualization container if there is
  one, then the greater of its bounding-box height and the document scroll height, else the
  scroll height alone.
\<close>

definition visualization_container :: "dom \<Rightarrow> rat option" where
  "visualization_container d =
     (if InsightCard__viz d \<noteq> None then InsightCard__viz d else ExportedInsight__content d)"

definition spec_measured_height :: "dom \<Rightarrow> rat" where
  "spec_measured_height d =
     (case visualization_container d of
        Some h \<Rightarrow> max h (of_int (scrollHeight d))
      | None \<Rightarrow> of_int (scrollHeight d))"

text \<open>
  The height handed to \<open>set_window_size\<close> after a measure pass over the page \<open>d\<close>: the
  measured height plus 85, as Python receives and adds it.
\<close>

definition applied_height :: "dom \<Rightarrow> py_value" where
  "applied_height d = to_python (JsNumber (spec_measured_height d + 85))"

subsection \<open>Concrete assets, pages and worlds\<close>

definition insight_asset :: exported_asset where
  "insight_asset = \<lparr>asset_id = 9, team_id = 2, insight = Some 11, dashboard = None,
     export_format = ''image/png''\<rparr>"

definition dashboard_asset :: exported_asset where
  "dashboard_asset = \<lparr>asset_id = 10, team_id = 2, insight = None, dashboard = Some 5,
     export_format = ''image/png''\<rparr>"

definition both_asset :: exported_asset where
  "both_asset = \<lparr>asset_id = 12, team_id = 2, insight = Some 11, dashboard = Some 5,
     export_format = ''image/png''\<rparr>"

definition orphan_asset :: exported_asset where
  "orphan_asset = \<lparr>asset_id = 8, team_id = 2, insight = None, dashboard = None,
     export_format = ''image/png''\<rparr>"

definition pdf_insight_asset :: exported_asset where
  "pdf_insight_asset = \<lparr>asset_id = 7, team_id = 2, insight = Some 11, dashboard = None,
     export_format = ''application/pdf''\<rparr>"

text \<open>A page with a container 400.5 high and a table 1300 wide; one whose table is 1001 wide.\<close>

definition wide_table_page :: dom where
  "wide_table_page = \<lparr>InsightCard__viz = Some (801 / 2), ExportedInsight__content = None,
     scrollHeight = 300, table_offsetWidth = Some 1300\<rparr>"

definition odd_table_page :: dom where
  "odd_table_page = \<lparr>InsightCard__viz = None, ExportedInsight__content = Some 420,
     scrollHeight = 500, table_offsetWidth = Some 1001\<rparr>"

text \<open>The world in which nothing raises, and variations of it with one or a few faults.\<close>

definition calm_world :: world where
  "calm_world = \<lparr>SITE_URL = ''https://app.example'', uuid4 = ''0f8fad5b'', access_token = ''tok'',
     absolute_uri = (\<lambda>path. ''https://app.example'' @ path), raises = (\<lambda>k. None),
     page = (\<lambda>k. wide_table_page), writes_file = (\<lambda>k. True)\<rparr>"

definition odd_table_world :: world where
  "odd_table_world = calm_world\<lparr>page := (\<lambda>k. odd_table_page)\<rparr>"

definition no_site_url_world :: world where
  "no_site_url_world = calm_world\<lparr>SITE_URL := []\<rparr>"

definition query_fails_world :: world where
  "query_fails_world =
     calm_world\<lparr>raises := (\<lambda>k. None)(At_process_query_dict := Some (OtherException 0))\<rparr>"

definition spinner_stuck_world :: world where
  "spinner_stuck_world =
     calm_world\<lparr>raises := (\<lambda>k. None)(At_wait_spinner := Some TimeoutException)\<rparr>"

definition diag_fails_world :: world where
  "diag_fails_world = calm_world\<lparr>raises := (\<lambda>k. None)(At_get := Some (OtherException 3),
     At_diag_get_log := Some (OtherException 4), At_diag_screenshot := Some (OtherException 5))\<rparr>"

definition quit_fails_world :: world where
  "quit_fails_world = calm_world\<lparr>raises := (\<lambda>k. None)(At_final_height := Some (OtherException 1),
     At_quit := Some (OtherException 2))\<rparr>"

section \<open>Reasoning about programs\<close>

lemmas prog_defs = returnE_def raiseE_def bindE_def thenE_def try_except_def try_finally_def
  Exception_def is_TimeoutException_def emit_def modify_def when_state_def outcome_def external_def

lemmas ext_defs = execute_script_def save_screenshot_def os_remove_def makedirs_def read_image_def
  get_public_access_token_def get_driver_def TMP_DIR_def HEIGHT_OFFSET_def

lemmas pipe_defs = viewport_width_def stability_wait_def screenshot_steps_def screenshot_body_def
  failure_diagnostics_def quit_driver_def screenshot_asset_def render_target_def
  tmp_image_path_def export_body_def export_cleanup_def export_to_png_def export_image_def
  start_def

lemma floor_numeral_div: "\<lfloor>(numeral a :: rat) / numeral b\<rfloor> = numeral a div numeral b"
  using floor_divide_of_int_eq [of "numeral a" "numeral b", where ?'a = rat] by simp

lemmas run_simps = prog_defs ext_defs pipe_defs Let_def floor_numeral_div calm_world_def
  wide_table_page_def final_viewport_width_def

subsection \<open>Invariants are closed under the control operators\<close>

lemma preserves_returnE: "preserves I (returnE x)"
  by (simp add: preserves_def returnE_def)

lemma preserves_raiseE: "preserves I (raiseE e)"
  by (simp add: preserves_def raiseE_def)

lemma preserves_bindE: "preserves I m \<Longrightarrow> (\<And>x. preserves I (f x)) \<Longrightarrow> preserves I (bindE m f)"
  by (auto simp: preserves_def bindE_def split: prod.splits sum.splits)

lemma preserves_thenE: "preserves I m \<Longrightarrow> preserves I n \<Longrightarrow> preserves I (thenE m n)"
  by (simp add: thenE_def preserves_bindE)

lemma preserves_try_except:
  "preserves I m \<Longrightarrow> (\<And>e. preserves I (h e)) \<Longrightarrow> preserves I (try_except m c h)"
  by (auto simp: preserves_def try_except_def split: prod.splits sum.splits)

lemma preserves_try_finally:
  "preserves I m \<Longrightarrow> preserves I fin \<Longrightarrow> preserves I (try_finally m fin)"
  by (auto simp: preserves_def try_finally_def split: prod.splits sum.splits)

lemma preserves_when_state: "preserves I m \<Longrightarrow> preserves I (when_state c m)"
  by (simp add: preserves_def when_state_def)

lemma preserves_outcome: "preserves I (outcome w k)"
  by (simp add: preserves_def outcome_def returnE_def raiseE_def split: option.splits)

lemma preserves_emit:
  "(\<And>s. I s \<Longrightarrow> I (s\<lparr>trace := trace s @ [ev]\<rparr>)) \<Longrightarrow> preserves I (emit ev)"
  by (simp add: preserves_def emit_def)

lemma preserves_modify: "(\<And>s. I s \<Longrightarrow> I (f s)) \<Longrightarrow> preserves I (modify f)"
  by (simp add: preserves_def modify_def)

lemma preserves_pure: "preserves I (\<lambda>s. (r, s))"
  by (simp add: preserves_def)

lemma preserves_external:
  "(\<And>s. I s \<Longrightarrow> I (s\<lparr>trace := trace s @ [ev]\<rparr>)) \<Longrightarrow> preserves I (external w k ev)"
  by (simp add: external_def preserves_thenE preserves_emit preserves_outcome)

lemma preserves_execute_script:
  "(\<And>s. I s \<Longrightarrow> I (s\<lparr>trace := trace s @ [ExecuteScript scr]\<rparr>))
   \<Longrightarrow> preserves I (execute_script w k scr)"
  by (simp add: execute_script_def preserves_thenE preserves_external preserves_returnE)

lemma preserves_save_screenshot:
  "(\<And>s. I s \<Longrightarrow> I (s\<lparr>trace := trace s @ [SaveScreenshot p]\<rparr>))
   \<Longrightarrow> (\<And>s. I s \<Longrightarrow> I (s\<lparr>files := insert p (files s)\<rparr>))
   \<Longrightarrow> preserves I (save_screenshot w k p)"
  by (simp add: save_screenshot_def preserves_thenE preserves_emit preserves_outcome
      preserves_modify)

lemmas preserves_intros = preserves_returnE preserves_raiseE preserves_bindE preserves_thenE
  preserves_try_except preserves_try_finally preserves_when_state preserves_outcome
  preserves_emit preserves_modify preserves_pure preserves_external preserves_execute_script
  preserves_save_screenshot

subsection \<open>Window widths\<close>

lemma viewport_widths_append:
  "viewport_widths (xs @ ys) = viewport_widths xs @ viewport_widths ys"
  by (induction xs rule: viewport_widths.induct) simp_all

lemma viewport_width_bounds: "sw \<le> viewport_width sw v \<and> viewport_width sw v \<le> max sw 1800"
  by (cases v) (auto simp: viewport_width_def)

lemma widths_ok_screenshot_asset: "preserves (widths_ok sw) (screenshot_asset w p u sw sel)"
  unfolding screenshot_asset_def screenshot_body_def screenshot_steps_def failure_diagnostics_def
    quit_driver_def stability_wait_def get_driver_def Let_def
  by (intro preserves_intros)
     (simp_all add: widths_ok_def viewport_widths_append viewport_width_bounds)

lemma final_in_set: "final_viewport_width evs = Some x \<Longrightarrow> x \<in> set (viewport_widths evs)"
  by (auto simp: final_viewport_width_def split: list.splits)

lemma widths_ok_start: "widths_ok sw (start fs)"
  by (simp add: widths_ok_def start_def)

subsection \<open>Computing postconditions\<close>

lemma wp_returnE: "wp (returnE x) Q s = Q (Inr x) s"
  by (simp add: wp_def returnE_def)

lemma wp_raiseE: "wp (raiseE e) Q s = Q (Inl e) s"
  by (simp add: wp_def raiseE_def)

lemma wp_bindE:
  "wp (bindE m f) Q s = wp m (\<lambda>r s'. case r of Inl e \<Rightarrow> Q (Inl e) s' | Inr x \<Rightarrow> wp (f x) Q s') s"
  by (simp add: wp_def bindE_def split: prod.splits sum.splits)

lemma wp_thenE:
  "wp (thenE m n) Q s = wp m (\<lambda>r s'. case r of Inl e \<Rightarrow> Q (Inl e) s' | Inr x \<Rightarrow> wp n Q s') s"
  by (simp add: thenE_def wp_bindE)

lemma wp_try_except:
  "wp (try_except m c h) Q s =
     wp m (\<lambda>r s'. case r of Inl e \<Rightarrow> if c e then wp (h e) Q s' else Q (Inl e) s'
                   | Inr x \<Rightarrow> Q (Inr x) s') s"
  by (simp add: wp_def try_except_def split: prod.splits sum.splits)

lemma wp_try_finally:
  "wp (try_finally m fin) Q s =
     wp m (\<lambda>r s'. wp fin (\<lambda>r' s''. case r' of Inl e \<Rightarrow> Q (Inl e) s'' | Inr x \<Rightarrow> Q r s'') s') s"
  by (simp add: wp_def try_finally_def split: prod.splits sum.splits)

lemma wp_emit: "wp (emit ev) Q s = Q (Inr ()) (s\<lparr>trace := trace s @ [ev]\<rparr>)"
  by (simp add: wp_def emit_def)

lemma wp_modify: "wp (modify f) Q s = Q (Inr ()) (f s)"
  by (simp add: wp_def modify_def)

lemma wp_when_state:
  "wp (when_state c m) Q s = ((c s \<longrightarrow> wp m Q s) \<and> (\<not> c s \<longrightarrow> Q (Inr ()) s))"
  by (simp add: wp_def when_state_def)

lemma wp_outcome:
  "wp (outcome w k) Q s =
     ((raises w k = None \<longrightarrow> Q (Inr ()) s) \<and> (\<forall>e. raises w k = Some e \<longrightarrow> Q (Inl e) s))"
  by (simp add: wp_def outcome_def returnE_def raiseE_def split: option.splits)

lemma wp_os_remove:
  "wp (os_remove p) Q s =
     ((p \<in> files s \<longrightarrow> Q (Inr ()) (s\<lparr>trace := trace s @ [OsRemove p], files := files s - {p}\<rparr>))
      \<and> (p \<notin> files s \<longrightarrow> Q (Inl FileNotFoundError) (s\<lparr>trace := trace s @ [OsRemove p]\<rparr>)))"
  by (simp add: wp_def os_remove_def thenE_def bindE_def emit_def)

lemma wp_read_image:
  "wp (read_image w p) Q s =
     ((p \<in> files s \<longrightarrow> wp (outcome w At_read_image) Q (s\<lparr>trace := trace s @ [OpenRead p]\<rparr>))
      \<and> (p \<notin> files s \<longrightarrow> Q (Inl FileNotFoundError) (s\<lparr>trace := trace s @ [OpenRead p]\<rparr>)))"
  by (simp add: wp_def read_image_def thenE_def bindE_def emit_def)

lemma wp_export_cleanup:
  "wp (export_cleanup e) Q s =
     (let s1 = (case image_path_var s of
                  Some p \<Rightarrow> if p \<noteq> [] \<and> p \<in> files s
                            then s\<lparr>trace := trace s @ [OsRemove p], files := files s - {p}\<rparr> else s
                | None \<Rightarrow> s)
      in Q (Inl e) (s1\<lparr>trace := trace s1 @ [LogErrorIfSiteUrlNotReachable]\<rparr>))"
  by (simp add: wp_def export_cleanup_def os_remove_def thenE_def bindE_def emit_def raiseE_def
      split: option.splits)

lemma wp_save_screenshot:
  "wp (save_screenshot w k p) Q s =
     wp (outcome w k) Q
        (if writes_file w k
         then s\<lparr>trace := trace s @ [SaveScreenshot p], files := insert p (files s)\<rparr>
         else s\<lparr>trace := trace s @ [SaveScreenshot p]\<rparr>)"
  by (simp add: save_screenshot_def wp_thenE wp_emit wp_modify)

lemma wp_execute_script:
  "wp (execute_script w k scr) Q s =
     wp (external w k (ExecuteScript scr))
        (\<lambda>r s'. case r of Inl e \<Rightarrow> Q (Inl e) s'
                 | Inr x \<Rightarrow> Q (Inr (to_python (run_script scr (page w k)))) s') s"
  by (simp only: execute_script_def wp_thenE wp_returnE)

lemma wp_pure: "wp (\<lambda>s. (r, s)) Q s = Q r s"
  by (simp add: wp_def)

lemma wp_conseq: "wp m Q' s \<Longrightarrow> (\<And>r s'. Q' r s' \<Longrightarrow> Q r s') \<Longrightarrow> wp m Q s"
  by (auto simp: wp_def split: prod.splits)

lemma wp_preserves: "preserves I m \<Longrightarrow> I s \<Longrightarrow> wp m (\<lambda>r. I) s"
  by (auto simp: wp_def preserves_def split: prod.splits)

lemma wp_inv: "preserves I m \<Longrightarrow> I s \<Longrightarrow> (\<And>r s'. I s' \<Longrightarrow> Q r s') \<Longrightarrow> wp m Q s"
  using wp_conseq [OF wp_preserves] by blast

lemmas wp_simps = wp_returnE wp_raiseE wp_bindE wp_thenE wp_try_except wp_try_finally wp_emit
  wp_modify wp_when_state wp_outcome wp_pure external_def Exception_def is_TimeoutException_def

lemma wp_fst_snd: "wp m Q s = Q (fst (m s)) (snd (m s))"
  by (simp add: wp_def case_prod_beta)

subsection \<open>What has been entered stays in the trace\<close>

lemma grows_mem: "grows (\<lambda>s. ev \<in> set (trace s))"
  by (simp add: grows_def)

lemma preserves_os_remove:
  "(\<And>s. I s \<Longrightarrow> I (s\<lparr>trace := trace s @ [OsRemove p]\<rparr>))
   \<Longrightarrow> (\<And>s. I s \<Longrightarrow> I (s\<lparr>files := files s - {p}\<rparr>))
   \<Longrightarrow> preserves I (os_remove p)"
  unfolding os_remove_def
  by (intro preserves_thenE preserves_emit) (simp_all add: preserves_def)

lemma preserves_read_image:
  "(\<And>s. I s \<Longrightarrow> I (s\<lparr>trace := trace s @ [OpenRead p]\<rparr>)) \<Longrightarrow> preserves I (read_image w p)"
  unfolding read_image_def
  by (intro preserves_thenE preserves_emit)
     (simp_all add: preserves_def outcome_def returnE_def raiseE_def split: option.splits)

lemma preserves_export_cleanup:
  assumes "\<And>s ev. I s \<Longrightarrow> I (s\<lparr>trace := trace s @ [ev]\<rparr>)"
    and "\<And>s p. I s \<Longrightarrow> I (s\<lparr>files := files s - {p}\<rparr>)"
  shows "preserves I (export_cleanup e)"
proof -
  have rm: "I s \<Longrightarrow> I (snd (os_remove p s))" for s p
    using preserves_os_remove [of I p] assms unfolding preserves_def by blast
  have "preserves I (\<lambda>s. case image_path_var s of
                  Some p \<Rightarrow> if p \<noteq> [] \<and> p \<in> files s then os_remove p s else (Inr (), s)
                | None \<Rightarrow> (Inr (), s))"
    unfolding preserves_def by (auto split: option.splits intro: rm)
  then show ?thesis
    unfolding export_cleanup_def
    by (intro preserves_thenE preserves_emit preserves_raiseE) (simp_all add: assms)
qed

lemma grows_screenshot_core:
  "grows I \<Longrightarrow> preserves I (try_finally
              (try_except (screenshot_body w p u sw sel) Exception (failure_diagnostics w p u))
              (quit_driver w))"
  unfolding screenshot_body_def screenshot_steps_def failure_diagnostics_def quit_driver_def
    stability_wait_def get_driver_def Let_def
  by (intro preserves_intros) (simp_all add: grows_def)

lemma wp_screenshot_asset_enters:
  assumes "\<And>r s'. EnterScreenshotAsset p u sw sel \<in> set (trace s') \<Longrightarrow> Q r s'"
  shows "wp (screenshot_asset w p u sw sel) Q s"
  unfolding screenshot_asset_def
  apply (simp only: wp_thenE wp_emit wp_modify sum.case)
  apply (rule wp_inv [where I = "\<lambda>s. EnterScreenshotAsset p u sw sel \<in> set (trace s)"])
    apply (rule grows_screenshot_core [OF grows_mem])
   apply simp
  apply (erule assms)
  done

lemmas leaf_defs = makedirs_def get_public_access_token_def
lemmas wp_leaf = wp_os_remove wp_read_image wp_export_cleanup

lemma export_to_png_enters:
  assumes rt: "render_target w a (access_token w) = returnE (u, sel, sw)"
    and pre: "preflight_ok w fs"
  shows "EnterScreenshotAsset (tmp_image_path w) u sw sel
           \<in> set (trace (snd (export_to_png w a (start fs))))"
proof -
  have "wp (export_to_png w a)
          (\<lambda>r s'. EnterScreenshotAsset (tmp_image_path w) u sw sel \<in> set (trace s')) (start fs)"
    using pre unfolding export_to_png_def export_body_def preflight_ok_def
    apply (simp add: wp_simps leaf_defs rt start_def)
    apply (intro conjI impI allI wp_screenshot_asset_enters)
    apply (auto simp: wp_simps wp_leaf Let_def split: sum.splits option.splits)
    done
  then show ?thesis by (simp add: wp_fst_snd)
qed


subsection \<open>The width hint and the measured height\<close>

lemma integral_three_halves: "(rat_of_int \<lfloor>rat_of_int t * (3 / 2)\<rfloor> = rat_of_int t * (3 / 2)) = even t"
proof
  assume "rat_of_int \<lfloor>rat_of_int t * (3 / 2)\<rfloor> = rat_of_int t * (3 / 2)"
  then have "rat_of_int (2 * \<lfloor>rat_of_int t * (3 / 2)\<rfloor>) = rat_of_int (3 * t)"
    by simp
  then have "2 * \<lfloor>rat_of_int t * (3 / 2)\<rfloor> = 3 * t"
    by (simp only: of_int_eq_iff)
  then have "even (3 * t)" by (metis dvd_triv_left)
  then show "even t" by simp
next
  assume "even t"
  then obtain k where "t = 2 * k" by (auto elim: evenE)
  then show "rat_of_int \<lfloor>rat_of_int t * (3 / 2)\<rfloor> = rat_of_int t * (3 / 2)"
    by simp
qed

lemma to_python_of_int: "to_python (JsNumber (rat_of_int n)) = PyInt n"
  by simp

lemma viewport_width_integral:
  assumes "rat_of_int \<lfloor>h\<rfloor> = h"
  shows "rat_of_int (viewport_width sw (to_python (JsNumber h))) = spec_viewport_width sw (JsNumber h)"
proof -
  obtain n where n: "h = rat_of_int n"
    using assms by metis
  show ?thesis
    unfolding n to_python_of_int
    by (simp add: viewport_width_def spec_viewport_width_def of_int_max of_int_min)
qed

lemma viewport_width_of_table:
  "viewport_width sw (to_python (run_script TableWidth d)) =
       (case table_offsetWidth d of
          None \<Rightarrow> sw
        | Some t \<Rightarrow> if even t then max sw (min 1800 (if t \<noteq> 0 then 3 * t div 2 else sw)) else sw)"
proof (cases "table_offsetWidth d")
  case None
  then show ?thesis by (simp add: viewport_width_def)
next
  case (Some t)
  show ?thesis
  proof (cases "even t")
    case True
    then obtain k where k: "t = 2 * k" by (auto elim: evenE)
    have "rat_of_int t * (3 / 2) = rat_of_int (3 * k)" by (simp add: k)
    then have "to_python (run_script TableWidth d) = PyInt (3 * k)"
      using Some by (simp only: run_script.simps option.case to_python_of_int)
    then show ?thesis
      using Some by (simp add: viewport_width_def k)
  next
    case False
    then have "rat_of_int \<lfloor>rat_of_int t * (3 / 2)\<rfloor> \<noteq> rat_of_int t * (3 / 2)"
      by (simp only: integral_three_halves not_False_eq_True)
    then have "to_python (run_script TableWidth d) = PyFloat (rat_of_int t * (3 / 2))"
      using Some by (simp only: run_script.simps option.case to_python.simps if_False)
    then show ?thesis
      using Some False by (simp add: viewport_width_def)
  qed
qed

lemma py_add_int_to_python:
  "py_add_int (to_python (JsNumber r)) n = Inr (to_python (JsNumber (r + of_int n)))"
  by simp

lemma run_script_MeasureHeight: "run_script MeasureHeight d = JsNumber (spec_measured_height d)"
  by (simp add: spec_measured_height_def visualization_container_def split: option.splits)

lemma py_add_measured:
  "py_add_int (to_python (JsNumber (spec_measured_height d))) HEIGHT_OFFSET = Inr (applied_height d)"
  by (simp only: py_add_int_to_python applied_height_def HEIGHT_OFFSET_def of_int_numeral)

subsection \<open>Results that do not depend on the state\<close>

lemma oblivious_returnE: "oblivious (returnE x)"
  by (simp add: oblivious_def returnE_def)

lemma oblivious_raiseE: "oblivious (raiseE e)"
  by (simp add: oblivious_def raiseE_def)

lemma oblivious_pure: "oblivious (\<lambda>s. (r, s))"
  by (simp add: oblivious_def)

lemma oblivious_emit: "oblivious (emit ev)"
  by (simp add: oblivious_def emit_def)

lemma oblivious_modify: "oblivious (modify f)"
  by (simp add: oblivious_def modify_def)

lemma oblivious_outcome: "oblivious (outcome w k)"
  by (simp add: oblivious_def outcome_def returnE_def raiseE_def split: option.splits)

lemma fst_bindE:
  "fst (bindE m f s) = (case fst (m s) of Inl e \<Rightarrow> Inl e | Inr x \<Rightarrow> fst (f x (snd (m s))))"
  by (simp add: bindE_def split: prod.splits sum.splits)

lemma fst_try_except:
  "fst (try_except m c h s) =
     (case fst (m s) of Inl e \<Rightarrow> if c e then fst (h e (snd (m s))) else Inl e | Inr x \<Rightarrow> Inr x)"
  by (simp add: try_except_def split: prod.splits sum.splits)

lemma oblivious_bindE:
  assumes "oblivious m" and "\<And>x. oblivious (f x)"
  shows "oblivious (bindE m f)"
  unfolding oblivious_def
proof (intro allI)
  fix s t
  have m: "fst (m s) = fst (m t)" using assms(1) by (simp add: oblivious_def)
  have f: "fst (f x (snd (m s))) = fst (f x (snd (m t)))" for x
    using assms(2) [of x] by (simp add: oblivious_def)
  show "fst (bindE m f s) = fst (bindE m f t)"
    using f by (simp add: fst_bindE m split: sum.splits)
qed

lemma oblivious_thenE: "oblivious m \<Longrightarrow> oblivious n \<Longrightarrow> oblivious (thenE m n)"
  by (simp add: thenE_def oblivious_bindE)

lemma oblivious_try_except:
  assumes "oblivious m" and "\<And>e. oblivious (h e)"
  shows "oblivious (try_except m c h)"
  unfolding oblivious_def
proof (intro allI)
  fix s t
  have m: "fst (m s) = fst (m t)" using assms(1) by (simp add: oblivious_def)
  have h: "fst (h e (snd (m s))) = fst (h e (snd (m t)))" for e
    using assms(2) [of e] by (simp add: oblivious_def)
  show "fst (try_except m c h s) = fst (try_except m c h t)"
    using h by (simp add: fst_try_except m split: sum.splits)
qed

lemmas oblivious_intros = oblivious_returnE oblivious_raiseE oblivious_pure oblivious_emit
  oblivious_modify oblivious_outcome oblivious_bindE oblivious_thenE oblivious_try_except

lemma oblivious_screenshot_body: "oblivious (screenshot_body w p u sw sel)"
  unfolding screenshot_body_def screenshot_steps_def stability_wait_def get_driver_def
    external_def execute_script_def save_screenshot_def Let_def
  by (intro oblivious_intros)

subsection \<open>The except clause and the finally clause of \<open>_screenshot_asset\<close>\<close>

lemma wp_failure_diagnostics:
  "wp (failure_diagnostics w p u e) Q s =
     Q (Inl e)
       (let s1 = s\<lparr>trace := trace s @ [SetExtra ''url_to_render'' u]\<rparr>;
            s2 = (if driver_var s
                  then s1\<lparr>trace := trace s1 @ [GetLog ''browser'']
                             @ (if raises w At_diag_get_log = None then [AddAttachment ''logs.txt''] else [])
                             @ [SaveScreenshot p]
                             @ (if raises w At_diag_screenshot = None then [AddAttachment p] else []),
                          files := (if writes_file w At_diag_screenshot then insert p (files s1)
                                    else files s1)\<rparr>
                  else s1)
        in s2\<lparr>trace := trace s2 @ [CaptureException (Some e)]\<rparr>)"
  unfolding failure_diagnostics_def
  by (cases "raises w At_diag_get_log"; cases "raises w At_diag_screenshot")
     (simp_all add: wp_simps wp_save_screenshot Let_def)

lemma failure_diagnostics_reraises: "fst (failure_diagnostics w p u e s) = Inl e"
  using wp_failure_diagnostics [of w p u e "\<lambda>r s'. r = Inl e" s]
  by (simp add: wp_fst_snd)

lemma try_block_result:
  "fst (try_except (screenshot_body w p u sw sel) Exception (failure_diagnostics w p u) s)
     = fst (screenshot_body w p u sw sel s)"
  by (simp add: fst_try_except failure_diagnostics_reraises Exception_def split: sum.splits)

lemma quit_counted_steps: "preserves (quit_counted c b) (screenshot_steps w p u sw sel)"
  unfolding screenshot_steps_def stability_wait_def Let_def
  by (intro preserves_intros) (simp_all add: quit_counted_def)

lemma quit_counted_diagnostics: "preserves (quit_counted c b) (failure_diagnostics w p u e)"
  unfolding failure_diagnostics_def
  by (intro preserves_intros) (simp_all add: quit_counted_def)

lemma try_block_summary:
  assumes "quit_counted c False s"
  shows "quit_counted c (raises w At_get_driver = None)
           (snd (try_except (screenshot_body w p u sw sel) Exception (failure_diagnostics w p u) s))"
proof -
  let ?Q = "\<lambda>r. quit_counted c (raises w At_get_driver = None)"
  have "wp (try_except (screenshot_body w p u sw sel) Exception (failure_diagnostics w p u)) ?Q s"
  proof (cases "raises w At_get_driver")
    case (Some e)
    have "wp (failure_diagnostics w p u e) ?Q (s\<lparr>trace := trace s @ [GetDriver]\<rparr>)"
      using assms Some
      by (intro wp_inv [OF quit_counted_diagnostics [of c False]]) (simp_all add: quit_counted_def)
    then show ?thesis
      using Some unfolding screenshot_body_def get_driver_def
      by (simp add: wp_simps)
  next
    case None
    have "wp (screenshot_steps w p u sw sel)
            (\<lambda>r s'. case r of Inl e \<Rightarrow> wp (failure_diagnostics w p u e) ?Q s' | Inr x \<Rightarrow> ?Q r s')
            (s\<lparr>trace := trace s @ [GetDriver], driver_var := True\<rparr>)"
    proof (rule wp_inv [OF quit_counted_steps [of c True]])
      show "quit_counted c True (s\<lparr>trace := trace s @ [GetDriver], driver_var := True\<rparr>)"
        using assms by (simp add: quit_counted_def)
    next
      fix r s' assume I: "quit_counted c True s'"
      show "case r of Inl e \<Rightarrow> wp (failure_diagnostics w p u e) ?Q s' | Inr x \<Rightarrow> ?Q r s'"
      proof (cases r)
        case (Inl e)
        have "wp (failure_diagnostics w p u e) ?Q s'"
          using I None
          by (intro wp_inv [OF quit_counted_diagnostics [of c True]]) simp_all
        then show ?thesis using Inl by simp
      next
        case (Inr x)
        then show ?thesis using I None by simp
      qed
    qed
    then show ?thesis
      using None unfolding screenshot_body_def get_driver_def
      by (simp add: wp_simps cong: sum.case_cong)
  qed
  then show ?thesis by (simp add: wp_fst_snd)
qed

lemma screenshot_asset_unfold:
  "screenshot_asset w p u sw sel s =
     try_finally (try_except (screenshot_body w p u sw sel) Exception (failure_diagnostics w p u))
       (quit_driver w) (entered p u sw sel s)"
  by (simp add: screenshot_asset_def entered_def thenE_def bindE_def emit_def modify_def)

lemma wp_quit_driver:
  "wp (quit_driver w) Q s =
     ((driver_var s \<longrightarrow> wp (outcome w At_quit) Q (s\<lparr>trace := trace s @ [DriverQuit]\<rparr>))
      \<and> (\<not> driver_var s \<longrightarrow> Q (Inr ()) s))"
  by (simp add: quit_driver_def wp_simps)

lemma screenshot_asset_result:
  "fst (screenshot_asset w p u sw sel s) =
     (case (if raises w At_get_driver = None then raises w At_quit else None) of
        Some q \<Rightarrow> Inl q
      | None \<Rightarrow> fst (screenshot_body w p u sw sel (entered p u sw sel s)))"
proof -
  let ?T = "try_except (screenshot_body w p u sw sel) Exception (failure_diagnostics w p u)"
  let ?s1 = "entered p u sw sel s"
  have dv: "driver_var (snd (?T ?s1)) = (raises w At_get_driver = None)"
    using try_block_summary [of "count_list (trace ?s1) DriverQuit" ?s1 w p u sw sel]
    by (simp add: quit_counted_def entered_def)
  have r: "fst (?T ?s1) = fst (screenshot_body w p u sw sel ?s1)"
    by (rule try_block_result)
  have "wp (try_finally ?T (quit_driver w))
          (\<lambda>r s'. r = (case (if raises w At_get_driver = None then raises w At_quit else None) of
                          Some q \<Rightarrow> Inl q
                        | None \<Rightarrow> fst (screenshot_body w p u sw sel ?s1))) ?s1"
    unfolding wp_try_finally
    by (subst wp_fst_snd) (auto simp: wp_quit_driver wp_outcome dv r split: option.splits)
  then show ?thesis
    by (simp add: wp_fst_snd screenshot_asset_unfold)
qed

lemma wp_stability_wait_timeout:
  assumes "raises w At_wait_spinner = Some TimeoutException"
  shows "wp (stability_wait w p u) Q s =
     Q (Inr ())
       (s\<lparr>files := (if writes_file w At_spinner_screenshot then insert p (files s) else files s),
          trace := trace s @ [WaitUntilNot 20 ''Spinner'', LoggerException ''image_exporter.timeout'',
                    SetExtra ''url_to_render'' u, SaveScreenshot p]
                  @ (if raises w At_spinner_screenshot = None then [AddAttachment p] else [])
                  @ [CaptureException None]\<rparr>)"
  unfolding stability_wait_def
  using assms
  by (cases "raises w At_spinner_screenshot") (simp_all add: wp_simps wp_save_screenshot)

subsection \<open>The temporary file and the session\<close>

lemma tmp_image_path_nonempty: "tmp_image_path w \<noteq> []"
  by (simp add: tmp_image_path_def TMP_DIR_def)

lemma tmp_image_path_not_TMP_DIR: "TMP_DIR \<noteq> tmp_image_path w"
proof
  assume "TMP_DIR = tmp_image_path w"
  then have "length TMP_DIR = length (tmp_image_path w)" by simp
  then show False by (simp add: tmp_image_path_def TMP_DIR_def)
qed

lemma image_path_kept:
  "preserves (\<lambda>s. image_path_var s = v) (screenshot_asset w p u sw sel)"
  unfolding screenshot_asset_def screenshot_body_def screenshot_steps_def failure_diagnostics_def
    quit_driver_def stability_wait_def get_driver_def Let_def
  by (intro preserves_intros) simp_all

lemma export_to_png_removes_file:
  assumes "SITE_URL w \<noteq> [] \<or> tmp_image_path w \<notin> files s"
  shows "tmp_image_path w \<notin> files (snd (export_to_png w a s))"
proof -
  have "wp (export_to_png w a) (\<lambda>r s'. tmp_image_path w \<notin> files s') s"
    using assms unfolding export_to_png_def export_body_def render_target_def
    apply (simp add: wp_simps leaf_defs tmp_image_path_not_TMP_DIR)
    apply (intro conjI impI allI wp_inv [OF image_path_kept [of "Some (tmp_image_path w)"]])
    apply (auto simp: wp_simps wp_leaf Let_def tmp_image_path_nonempty split: sum.splits)
    done
  then show ?thesis by (simp add: wp_fst_snd)
qed

lemma screenshot_asset_quits:
  "count_list (trace (snd (screenshot_asset w p u sw sel s))) DriverQuit
     = count_list (trace s) DriverQuit + (if raises w At_get_driver = None then 1 else 0)
   \<and> (raises w At_get_driver = None \<longrightarrow> last (trace (snd (screenshot_asset w p u sw sel s))) = DriverQuit)"
proof -
  let ?T = "try_except (screenshot_body w p u sw sel) Exception (failure_diagnostics w p u)"
  let ?s1 = "entered p u sw sel s"
  let ?c = "count_list (trace s) DriverQuit"
  have sm: "quit_counted ?c (raises w At_get_driver = None) (snd (?T ?s1))"
    by (rule try_block_summary) (simp add: quit_counted_def entered_def)
  have "wp (try_finally ?T (quit_driver w))
          (\<lambda>r s'. count_list (trace s') DriverQuit
                     = ?c + (if raises w At_get_driver = None then 1 else 0)
                   \<and> (raises w At_get_driver = None \<longrightarrow> last (trace s') = DriverQuit)) ?s1"
    unfolding wp_try_finally
    using sm
    by (subst wp_fst_snd) (auto simp: wp_quit_driver wp_outcome quit_counted_def)
  then show ?thesis
    by (simp add: wp_fst_snd screenshot_asset_unfold)
qed

section \<open>The claims\<close>

text \<open>
  C1 (as stated): the final viewport width is at least the requested width and at most
  1800. This fails for dashboards: the requested width 1920 is a floor of the
  \<open>max\<close>, so the width applied is 1920 whatever the table measures.
\<close>

theorem C1_counterexample:
  "final_viewport_width (trace (snd (screenshot_asset calm_world ''/tmp/0f8fad5b.png''
      ''https://app.example/exporter?token=tok'' 1920 ''.InsightCard'' (start {})))) = Some 1920
   \<and> \<not> (1920::int) \<le> 1800"
  by (simp add: run_simps)

text \<open>
  C1 (amended): in every run of \<open>_screenshot_asset\<close>, whatever the world does, the last
  width passed to \<open>set_window_size\<close> is at least the requested width and at most the
  larger of the requested width and 1800: between 800 and 1800 for an insight, exactly
  1920 for a dashboard.
\<close>

theorem C1_viewport_width_bounds:
  assumes "final_viewport_width (trace (snd (screenshot_asset w p u sw sel (start fs)))) = Some x"
  shows "sw \<le> x \<and> x \<le> max sw 1800"
proof -
  have "widths_ok sw (snd (screenshot_asset w p u sw sel (start fs)))"
    using widths_ok_screenshot_asset widths_ok_start unfolding preserves_def by blast
  with final_in_set [OF assms] show ?thesis
    unfolding widths_ok_def by blast
qed

theorem C1_witness:
  "final_viewport_width (trace (snd (screenshot_asset calm_world ''/tmp/0f8fad5b.png''
      ''https://app.example/exporter?token=tok&legend'' 800 ''.ExportedInsight'' (start {})))) = Some 1800
   \<and> (800::int) \<le> 1800 \<and> (1800::int) \<le> max 800 1800"
  using C1_viewport_width_bounds [of calm_world "''/tmp/0f8fad5b.png''"
      "''https://app.example/exporter?token=tok&legend''" 800 "''.ExportedInsight''" "{}" 1800]
  by (simp add: run_simps)

text \<open>
  C2: whatever the world does (success, or an exception at any call before, during or
  after the browser session), the temporary image file does not exist once
  \<open>_export_to_png\<close> has returned or raised, given that it did not exist beforehand or that
  \<open>SITE_URL\<close> is set; and \<open>_screenshot_asset\<close> calls \<open>driver.quit()\<close> exactly once when
  \<open>get_driver\<close> returned a session and never when it raised, as the last call it makes.
\<close>

theorem C2_cleanup_totality:
  "(SITE_URL w \<noteq> [] \<or> tmp_image_path w \<notin> files s \<longrightarrow>
      tmp_image_path w \<notin> files (snd (export_to_png w a s)))
   \<and> count_list (trace (snd (screenshot_asset w p u sw sel s))) DriverQuit
       = count_list (trace s) DriverQuit + (if raises w At_get_driver = None then 1 else 0)
   \<and> (raises w At_get_driver = None \<longrightarrow>
        last (trace (snd (screenshot_asset w p u sw sel s))) = DriverQuit)"
  using export_to_png_removes_file [of w s a] screenshot_asset_quits [of w p u sw sel s]
  by blast

theorem C2_witness:
  "tmp_image_path quit_fails_world \<notin> files (start {})
   \<and> fst (export_to_png quit_fails_world insight_asset (start {})) = Inl (OtherException 2)
   \<and> tmp_image_path quit_fails_world \<notin> files (snd (export_to_png quit_fails_world insight_asset (start {})))
   \<and> raises quit_fails_world At_get_driver = None
   \<and> count_list (trace (snd (screenshot_asset quit_fails_world ''/tmp/0f8fad5b.png''
         ''https://app.example/exporter?token=tok&legend'' 800 ''.ExportedInsight'' (start {})))) DriverQuit = 1
   \<and> last (trace (snd (screenshot_asset quit_fails_world ''/tmp/0f8fad5b.png''
         ''https://app.example/exporter?token=tok&legend'' 800 ''.ExportedInsight'' (start {})))) = DriverQuit"
proof -
  have a: "tmp_image_path quit_fails_world \<notin> files (start {})"
    by (simp add: start_def)
  have b: "raises quit_fails_world At_get_driver = None"
    by (simp add: quit_fails_world_def calm_world_def)
  have c: "fst (export_to_png quit_fails_world insight_asset (start {})) = Inl (OtherException 2)"
    by (simp add: run_simps quit_fails_world_def insight_asset_def)
  show ?thesis
    using a b c C2_cleanup_totality [of quit_fails_world "start {}" insight_asset
        "''/tmp/0f8fad5b.png''" "''https://app.example/exporter?token=tok&legend''" 800
        "''.ExportedInsight''"]
    by (simp add: start_def)
qed

text \<open>
  C3 (as stated): for every asset whose format is not \<open>image/png\<close>, \<open>export_image\<close> raises
  the unsupported-format error. The insight's query is refreshed before the format is looked
  at; when that refresh raises, its error is the one that leaves \<open>export_image\<close>.
\<close>

theorem C3_counterexample:
  "export_format pdf_insight_asset \<noteq> ''image/png'' \<and>
   fst (export_image query_fails_world pdf_insight_asset (start {})) = Inl (OtherException 0) \<and>
   \<not> is_NotImplementedError (OtherException 0)"
  by (simp add: run_simps pdf_insight_asset_def query_fails_world_def)

text \<open>
  C3 (amended): for every asset whose format is not \<open>image/png\<close>, \<open>export_image\<close> raises
  without calling \<open>get_driver\<close> and without entering \<open>_export_to_png\<close>. The error is
  the unsupported-format \<open>NotImplementedError\<close> whenever no insight is set or the query
  refresh returns; when the refresh raises, its error propagates instead.
\<close>

theorem C3_format_gate:
  assumes "export_format a \<noteq> ''image/png''"
  shows "GetDriver \<notin> set (trace (snd (export_image w a (start fs))))
       \<and> EnterExportToPng \<notin> set (trace (snd (export_image w a (start fs))))
       \<and> (\<exists>e. fst (export_image w a (start fs)) = Inl e)
       \<and> (insight a = None \<or> raises w At_process_query_dict = None \<longrightarrow>
            fst (export_image w a (start fs)) = Inl (NotImplementedError
              (''Export to format '' @ export_format a @ '' is not supported for insights'')))
       \<and> (\<forall>e. insight a \<noteq> None \<and> raises w At_process_query_dict = Some e \<longrightarrow>
            fst (export_image w a (start fs)) = Inl e)"
  using assms
  by (auto simp: export_image_def prog_defs start_def split: option.splits)

theorem C3_witness:
  "export_format pdf_insight_asset \<noteq> ''image/png''
   \<and> raises calm_world At_process_query_dict = None
   \<and> fst (export_image calm_world pdf_insight_asset (start {}))
       = Inl (NotImplementedError ''Export to format application/pdf is not supported for insights'')
   \<and> GetDriver \<notin> set (trace (snd (export_image calm_world pdf_insight_asset (start {}))))
   \<and> EnterExportToPng \<notin> set (trace (snd (export_image calm_world pdf_insight_asset (start {}))))
   \<and> insight pdf_insight_asset \<noteq> None
   \<and> raises query_fails_world At_process_query_dict = Some (OtherException 0)
   \<and> fst (export_image query_fails_world pdf_insight_asset (start {})) = Inl (OtherException 0)"
  using C3_format_gate [of pdf_insight_asset calm_world "{}"]
    C3_format_gate [of pdf_insight_asset query_fails_world "{}"]
  by (simp add: pdf_insight_asset_def calm_world_def query_fails_world_def)

text \<open>
  C4 (as stated): for every asset with neither an insight nor a dashboard, \<open>_export_to_png\<close>
  raises in its branch selection. The \<open>SITE_URL\<close> check, the temporary directory and the
  access token all come first; with \<open>SITE_URL\<close> unset the function raises the
  \<open>SITE_URL\<close> error and never reaches the branch.
\<close>

theorem C4_counterexample:
  "insight orphan_asset = None \<and> dashboard orphan_asset = None \<and>
   fst (export_to_png no_site_url_world orphan_asset (start {})) = Inl site_url_error \<and>
   trace (snd (export_to_png no_site_url_world orphan_asset (start {})))
     = [EnterExportToPng, LogErrorIfSiteUrlNotReachable] \<and>
   site_url_error \<noteq> missing_id_error"
  by (simp add: run_simps orphan_asset_def no_site_url_world_def site_url_error_def
      missing_id_error_def)

text \<open>
  C4 (amended): for every asset with neither an insight nor a dashboard, \<open>_export_to_png\<close>
  raises, \<open>_screenshot_asset\<close> is never entered and \<open>get_driver\<close> is never called. The
  error is the missing-ID error of the branch selection whenever the steps before it pass
  (\<open>SITE_URL\<close> set, temporary directory present or created, token issued); with \<open>SITE_URL\<close>
  unset it is the \<open>SITE_URL\<close> error.
\<close>

theorem C4_no_target_no_driver:
  assumes "insight a = None" and "dashboard a = None"
  shows "GetDriver \<notin> set (trace (snd (export_to_png w a (start fs))))
       \<and> \<not> list_ex is_EnterScreenshotAsset (trace (snd (export_to_png w a (start fs))))
       \<and> (\<exists>e. fst (export_to_png w a (start fs)) = Inl e)
       \<and> (preflight_ok w fs \<longrightarrow> fst (export_to_png w a (start fs)) = Inl missing_id_error)
       \<and> (SITE_URL w = [] \<longrightarrow> fst (export_to_png w a (start fs)) = Inl site_url_error)"
proof -
  have "wp (export_to_png w a)
          (\<lambda>r s'. GetDriver \<notin> set (trace s') \<and> \<not> list_ex is_EnterScreenshotAsset (trace s')
             \<and> (\<exists>e. r = Inl e) \<and> (preflight_ok w fs \<longrightarrow> r = Inl missing_id_error)
             \<and> (SITE_URL w = [] \<longrightarrow> r = Inl site_url_error)) (start fs)"
    using assms unfolding export_to_png_def export_body_def render_target_def preflight_ok_def
      missing_id_error_def site_url_error_def
    by (auto simp: wp_simps wp_leaf leaf_defs start_def Let_def split: option.splits)
  then show ?thesis by (simp add: wp_fst_snd)
qed

theorem C4_witness:
  "insight orphan_asset = None \<and> dashboard orphan_asset = None \<and> preflight_ok calm_world {}
   \<and> fst (export_to_png calm_world orphan_asset (start {})) = Inl missing_id_error
   \<and> GetDriver \<notin> set (trace (snd (export_to_png calm_world orphan_asset (start {}))))"
  using C4_no_target_no_driver [of orphan_asset calm_world "{}"]
  by (simp add: orphan_asset_def preflight_ok_def calm_world_def)

text \<open>
  C5: the provisional width is \<open>max(requested_width, min(1800, width_hint or requested_width))\<close>
  whenever the table hint, 1.5 times the table's rendered width, resolves to a number, and
  only a result that is not a number falls back to the requested width. The code does not
  do this for a table of odd \<open>offsetWidth\<close>: 1001 gives the hint 1501.5, a number but not an
  \<open>int\<close>, so \<open>isinstance(width, int)\<close> fails and every resize of the run uses the requested
  width 800, where the formula gives 1501.5. The neighbouring even widths 1000 and 1002 do
  follow the formula and give 1500 and 1503.
\<close>

theorem C5_odd_table_hint_dropped:
  "run_script TableWidth odd_table_page = JsNumber (3003 / 2)
   \<and> spec_viewport_width 800 (run_script TableWidth odd_table_page) = 3003 / 2
   \<and> viewport_width 800 (to_python (run_script TableWidth odd_table_page)) = 800
   \<and> viewport_widths (trace (snd (screenshot_asset odd_table_world ''/tmp/0f8fad5b.png''
        ''https://app.example/exporter?token=tok&legend'' 800 ''.ExportedInsight'' (start {}))))
      = [800, 800, 800]
   \<and> viewport_width 800 (to_python (run_script TableWidth
        (odd_table_page\<lparr>table_offsetWidth := Some 1000\<rparr>))) = 1500
   \<and> viewport_width 800 (to_python (run_script TableWidth
        (odd_table_page\<lparr>table_offsetWidth := Some 1002\<rparr>))) = 1503"
  by (simp add: run_simps odd_table_world_def odd_table_page_def spec_viewport_width_def)

text \<open>
  C6: when the bounded wait for the spinner to disappear ends in \<open>TimeoutException\<close>, the
  wait stage itself returns normally: it logs, sets the report context, tries a screenshot
  whose failure is dropped, and reports. If that timeout is the only thing that goes wrong
  (the diagnostic screenshot may fail or not), \<open>_screenshot_asset\<close> returns normally and the
  run goes on through both measure passes, both resizes and the capture.
\<close>

theorem C6_spinner_timeout_absorbed:
  assumes "raises w At_wait_spinner = Some TimeoutException"
  shows "fst (stability_wait w p u s) = Inr ()
   \<and> trace (snd (stability_wait w p u s)) =
       trace s @ [WaitUntilNot 20 ''Spinner'', LoggerException ''image_exporter.timeout'',
                  SetExtra ''url_to_render'' u, SaveScreenshot p]
         @ (if raises w At_spinner_screenshot = None then [AddAttachment p] else [])
         @ [CaptureException None]
   \<and> ((\<forall>k. k \<noteq> At_wait_spinner \<and> k \<noteq> At_spinner_screenshot \<longrightarrow> raises w k = None) \<longrightarrow>
        fst (screenshot_asset w p u sw sel (start fs)) = Inr ()
        \<and> trace (snd (screenshot_asset w p u sw sel (start fs))) =
            [EnterScreenshotAsset p u sw sel, GetDriver, SetWindowSize sw (PyInt 600), DriverGet u,
             WaitUntil 20 sel, WaitUntilNot 20 ''Spinner'',
             LoggerException ''image_exporter.timeout'', SetExtra ''url_to_render'' u,
             SaveScreenshot p]
            @ (if raises w At_spinner_screenshot = None then [AddAttachment p] else [])
            @ [CaptureException None,
             ExecuteScript MeasureHeight, ExecuteScript TableWidth,
             SetWindowSize (viewport_width sw (to_python (run_script TableWidth (page w At_table_width))))
               (applied_height (page w At_measure_height)),
             ExecuteScript (SettleDelay 500),
             ExecuteScript MeasureHeight,
             SetWindowSize (viewport_width sw (to_python (run_script TableWidth (page w At_table_width))))
               (applied_height (page w At_final_height)),
             SaveScreenshot p, DriverQuit])"
proof -
  have stage: "fst (stability_wait w p u s) = Inr ()
   \<and> trace (snd (stability_wait w p u s)) =
       trace s @ [WaitUntilNot 20 ''Spinner'', LoggerException ''image_exporter.timeout'',
                  SetExtra ''url_to_render'' u, SaveScreenshot p]
         @ (if raises w At_spinner_screenshot = None then [AddAttachment p] else [])
         @ [CaptureException None]"
    using wp_stability_wait_timeout [OF assms, of p u "\<lambda>r s'. r = Inr () \<and> trace s' =
       trace s @ [WaitUntilNot 20 ''Spinner'', LoggerException ''image_exporter.timeout'',
                  SetExtra ''url_to_render'' u, SaveScreenshot p]
         @ (if raises w At_spinner_screenshot = None then [AddAttachment p] else [])
         @ [CaptureException None]" s]
    by (simp add: wp_fst_snd)
  have "wp (screenshot_asset w p u sw sel)
      (\<lambda>r s'. r = Inr () \<and> trace s' =
            [EnterScreenshotAsset p u sw sel, GetDriver, SetWindowSize sw (PyInt 600), DriverGet u,
             WaitUntil 20 sel, WaitUntilNot 20 ''Spinner'',
             LoggerException ''image_exporter.timeout'', SetExtra ''url_to_render'' u,
             SaveScreenshot p]
            @ (if raises w At_spinner_screenshot = None then [AddAttachment p] else [])
            @ [CaptureException None,
             ExecuteScript MeasureHeight, ExecuteScript TableWidth,
             SetWindowSize (viewport_width sw (to_python (run_script TableWidth (page w At_table_width))))
               (applied_height (page w At_measure_height)),
             ExecuteScript (SettleDelay 500),
             ExecuteScript MeasureHeight,
             SetWindowSize (viewport_width sw (to_python (run_script TableWidth (page w At_table_width))))
               (applied_height (page w At_final_height)),
             SaveScreenshot p, DriverQuit]) (start fs)"
    if only: "\<forall>k. k \<noteq> At_wait_spinner \<and> k \<noteq> At_spinner_screenshot \<longrightarrow> raises w k = None"
    unfolding screenshot_asset_def screenshot_body_def screenshot_steps_def
      quit_driver_def get_driver_def Let_def
    using only
    by (simp add: wp_simps wp_stability_wait_timeout [OF assms] wp_execute_script
        wp_save_screenshot run_script_MeasureHeight py_add_measured start_def
        del: run_script.simps to_python.simps)
  then show ?thesis
    using stage by (simp only: wp_fst_snd) simp
qed

theorem C6_witness:
  "raises spinner_stuck_world At_wait_spinner = Some TimeoutException
   \<and> raises spinner_stuck_world = (\<lambda>k. None)(At_wait_spinner := Some TimeoutException)
   \<and> fst (screenshot_asset spinner_stuck_world ''/tmp/0f8fad5b.png''
         ''https://app.example/exporter?token=tok&legend'' 800 ''.ExportedInsight'' (start {})) = Inr ()
   \<and> ExecuteScript MeasureHeight \<in> set (trace (snd (screenshot_asset spinner_stuck_world
         ''/tmp/0f8fad5b.png'' ''https://app.example/exporter?token=tok&legend'' 800
         ''.ExportedInsight'' (start {}))))"
proof -
  have a: "raises spinner_stuck_world At_wait_spinner = Some TimeoutException"
    by (simp add: spinner_stuck_world_def calm_world_def)
  have b: "\<forall>k. k \<noteq> At_wait_spinner \<and> k \<noteq> At_spinner_screenshot \<longrightarrow> raises spinner_stuck_world k = None"
    by (simp add: spinner_stuck_world_def calm_world_def)
  have c: "raises spinner_stuck_world = (\<lambda>k. None)(At_wait_spinner := Some TimeoutException)"
    by (simp add: spinner_stuck_world_def calm_world_def)
  show ?thesis
    using a b c C6_spinner_timeout_absorbed [OF a, of "''/tmp/0f8fad5b.png''"
        "''https://app.example/exporter?token=tok&legend''" "start {}" 800 "''.ExportedInsight''" "{}"]
    by simp
qed

text \<open>
  C7: the \<open>except\<close> clause of \<open>_screenshot_asset\<close> always ends by raising the exception it
  was entered with. It attempts the console log and then the screenshot, each on its own:
  whether either raises only decides if its attachment is recorded, and a failed log
  retrieval does not stop the screenshot from being tried. So whenever the \<open>try\<close> block
  raises \<open>e\<close>, the \<open>try ... except\<close> raises \<open>e\<close>, and so does \<open>_screenshot_asset\<close>
  provided the \<open>finally\<close> clause's \<open>driver.quit()\<close> (not a diagnostic action) returns or no
  session was acquired.
\<close>

theorem C7_original_exception_reraised:
  "fst (failure_diagnostics w p u e s) = Inl e
   \<and> trace (snd (failure_diagnostics w p u e s)) =
       trace s @ [SetExtra ''url_to_render'' u]
         @ (if driver_var s
            then [GetLog ''browser'']
                 @ (if raises w At_diag_get_log = None then [AddAttachment ''logs.txt''] else [])
                 @ [SaveScreenshot p]
                 @ (if raises w At_diag_screenshot = None then [AddAttachment p] else [])
            else [])
         @ [CaptureException (Some e)]
   \<and> (fst (screenshot_body w p u sw sel s) = Inl e \<longrightarrow>
        fst (try_except (screenshot_body w p u sw sel) Exception (failure_diagnostics w p u) s) = Inl e)
   \<and> (fst (screenshot_body w p u sw sel s) = Inl e
        \<and> (raises w At_quit = None \<or> raises w At_get_driver \<noteq> None) \<longrightarrow>
        fst (screenshot_asset w p u sw sel t) = Inl e)"
proof -
  have tr: "trace (snd (failure_diagnostics w p u e s)) =
       trace s @ [SetExtra ''url_to_render'' u]
         @ (if driver_var s
            then [GetLog ''browser'']
                 @ (if raises w At_diag_get_log = None then [AddAttachment ''logs.txt''] else [])
                 @ [SaveScreenshot p]
                 @ (if raises w At_diag_screenshot = None then [AddAttachment p] else [])
            else [])
         @ [CaptureException (Some e)]"
    using wp_failure_diagnostics [of w p u e "\<lambda>r s'. trace s' =
       trace s @ [SetExtra ''url_to_render'' u]
         @ (if driver_var s
            then [GetLog ''browser'']
                 @ (if raises w At_diag_get_log = None then [AddAttachment ''logs.txt''] else [])
                 @ [SaveScreenshot p]
                 @ (if raises w At_diag_screenshot = None then [AddAttachment p] else [])
            else [])
         @ [CaptureException (Some e)]" s]
    by (simp add: wp_fst_snd Let_def)
  have ob: "fst (screenshot_body w p u sw sel (entered p u sw sel t)) = fst (screenshot_body w p u sw sel s)"
    using oblivious_screenshot_body [of w p u sw sel] unfolding oblivious_def by blast
  have whole: "fst (screenshot_asset w p u sw sel t) = Inl e"
    if "fst (screenshot_body w p u sw sel s) = Inl e"
      and "raises w At_quit = None \<or> raises w At_get_driver \<noteq> None"
    using that by (auto simp: screenshot_asset_result ob)
  show ?thesis
    using tr whole by (simp add: failure_diagnostics_reraises try_block_result)
qed

theorem C7_witness:
  "fst (screenshot_body diag_fails_world ''/tmp/0f8fad5b.png''
      ''https://app.example/exporter?token=tok&legend'' 800 ''.ExportedInsight'' (start {}))
     = Inl (OtherException 3)
   \<and> raises diag_fails_world At_quit = None
   \<and> raises diag_fails_world At_diag_get_log = Some (OtherException 4)
   \<and> raises diag_fails_world At_diag_screenshot = Some (OtherException 5)
   \<and> fst (screenshot_asset diag_fails_world ''/tmp/0f8fad5b.png''
      ''https://app.example/exporter?token=tok&legend'' 800 ''.ExportedInsight'' (start {}))
     = Inl (OtherException 3)"
proof -
  have a: "fst (screenshot_body diag_fails_world ''/tmp/0f8fad5b.png''
      ''https://app.example/exporter?token=tok&legend'' 800 ''.ExportedInsight'' (start {}))
     = Inl (OtherException 3)"
    by (simp add: run_simps diag_fails_world_def)
  have b: "raises diag_fails_world At_quit = None"
    "raises diag_fails_world At_diag_get_log = Some (OtherException 4)"
    "raises diag_fails_world At_diag_screenshot = Some (OtherException 5)"
    by (simp_all add: diag_fails_world_def calm_world_def)
  show ?thesis
    using a b C7_original_exception_reraised [of diag_fails_world "''/tmp/0f8fad5b.png''"
        "''https://app.example/exporter?token=tok&legend''" "OtherException 3" "start {}"
        800 "''.ExportedInsight''" "start {}"]
    by simp
qed

text \<open>
  C8: the measure script returns the greater of the container's bounding-box height and
  the document scroll height when a container exists, and the scroll height alone when
  none does. When no call raises, the run is: measure, width hint, resize to the measured
  height plus 85, the 500 ms settle script, measure again, resize to the second measured
  height plus 85, capture; the settle script runs between the first resize and the second
  measure, and \<open>execute_script\<close> returns only once its promise has resolved.
\<close>

theorem C8_two_pass_sizing:
  "run_script MeasureHeight d = JsNumber (spec_measured_height d)
   \<and> ((\<forall>k. raises w k = None) \<longrightarrow>
        fst (screenshot_asset w p u sw sel (start fs)) = Inr ()
        \<and> trace (snd (screenshot_asset w p u sw sel (start fs))) =
            [EnterScreenshotAsset p u sw sel, GetDriver, SetWindowSize sw (PyInt 600), DriverGet u,
             WaitUntil 20 sel, WaitUntilNot 20 ''Spinner'',
             ExecuteScript MeasureHeight, ExecuteScript TableWidth,
             SetWindowSize (viewport_width sw (to_python (run_script TableWidth (page w At_table_width))))
               (applied_height (page w At_measure_height)),
             ExecuteScript (SettleDelay 500),
             ExecuteScript MeasureHeight,
             SetWindowSize (viewport_width sw (to_python (run_script TableWidth (page w At_table_width))))
               (applied_height (page w At_final_height)),
             SaveScreenshot p, DriverQuit])"
proof -
  have "wp (screenshot_asset w p u sw sel)
      (\<lambda>r s'. r = Inr () \<and> trace s' =
            [EnterScreenshotAsset p u sw sel, GetDriver, SetWindowSize sw (PyInt 600), DriverGet u,
             WaitUntil 20 sel, WaitUntilNot 20 ''Spinner'',
             ExecuteScript MeasureHeight, ExecuteScript TableWidth,
             SetWindowSize (viewport_width sw (to_python (run_script TableWidth (page w At_table_width))))
               (applied_height (page w At_measure_height)),
             ExecuteScript (SettleDelay 500),
             ExecuteScript MeasureHeight,
             SetWindowSize (viewport_width sw (to_python (run_script TableWidth (page w At_table_width))))
               (applied_height (page w At_final_height)),
             SaveScreenshot p, DriverQuit]) (start fs)"
    if "\<forall>k. raises w k = None"
    unfolding screenshot_asset_def screenshot_body_def screenshot_steps_def stability_wait_def
      quit_driver_def get_driver_def Let_def
    using that
    by (simp add: wp_simps wp_execute_script wp_save_screenshot run_script_MeasureHeight
        py_add_measured start_def del: run_script.simps to_python.simps)
  then show ?thesis
    by (simp only: wp_fst_snd run_script_MeasureHeight) simp
qed

theorem C8_witness:
  "(\<forall>k. raises calm_world k = None)
   \<and> fst (screenshot_asset calm_world ''/tmp/0f8fad5b.png''
         ''https://app.example/exporter?token=tok&legend'' 800 ''.ExportedInsight'' (start {})) = Inr ()
   \<and> viewport_width 800 (to_python (run_script TableWidth (page calm_world At_table_width))) = 1800
   \<and> applied_height (page calm_world At_measure_height) = PyFloat (971 / 2)
   \<and> trace (snd (screenshot_asset calm_world ''/tmp/0f8fad5b.png''
         ''https://app.example/exporter?token=tok&legend'' 800 ''.ExportedInsight'' (start {}))) =
       [EnterScreenshotAsset ''/tmp/0f8fad5b.png'' ''https://app.example/exporter?token=tok&legend''
          800 ''.ExportedInsight'',
        GetDriver, SetWindowSize 800 (PyInt 600),
        DriverGet ''https://app.example/exporter?token=tok&legend'',
        WaitUntil 20 ''.ExportedInsight'', WaitUntilNot 20 ''Spinner'',
        ExecuteScript MeasureHeight, ExecuteScript TableWidth,
        SetWindowSize 1800 (PyFloat (971 / 2)), ExecuteScript (SettleDelay 500),
        ExecuteScript MeasureHeight, SetWindowSize 1800 (PyFloat (971 / 2)),
        SaveScreenshot ''/tmp/0f8fad5b.png'', DriverQuit]"
proof -
  have a: "\<forall>k. raises calm_world k = None" by (simp add: calm_world_def)
  have b: "viewport_width 800 (to_python (run_script TableWidth (page calm_world At_table_width))) = 1800"
    by (simp add: calm_world_def wide_table_page_def viewport_width_def)
  have c: "applied_height (page calm_world k) = PyFloat (971 / 2)" for k
    by (simp add: calm_world_def wide_table_page_def applied_height_def spec_measured_height_def
        visualization_container_def floor_numeral_div)
  show ?thesis
    using a b c C8_two_pass_sizing [of wide_table_page calm_world "''/tmp/0f8fad5b.png''"
        "''https://app.example/exporter?token=tok&legend''" 800 "''.ExportedInsight''" "{}"]
    by simp
qed

text \<open>
  C9: the render target depends only on the asset's kind. With an insight set, the URL is
  built from \<open>/exporter?token=...&legend\<close>, the marker is \<open>.ExportedInsight\<close> and the width
  is 800; with only a dashboard set, the URL is built from \<open>/exporter?token=...\<close> with no
  legend flag, the marker is \<open>.InsightCard\<close> and the width is 1920. Whenever the steps
  before the branch pass, \<open>_screenshot_asset\<close> is entered with exactly these arguments.
\<close>

theorem C9_render_target_by_kind:
  "(insight a \<noteq> None \<longrightarrow>
      render_target w a tok s
        = (Inr (absolute_uri w (''/exporter?token='' @ tok @ ''&legend''), ''.ExportedInsight'', 800), s)
      \<and> (preflight_ok w fs \<longrightarrow>
           EnterScreenshotAsset (tmp_image_path w)
             (absolute_uri w (''/exporter?token='' @ access_token w @ ''&legend''))
             800 ''.ExportedInsight'' \<in> set (trace (snd (export_to_png w a (start fs))))))
   \<and> (insight a = None \<and> dashboard a \<noteq> None \<longrightarrow>
      render_target w a tok s
        = (Inr (absolute_uri w (''/exporter?token='' @ tok), ''.InsightCard'', 1920), s)
      \<and> (preflight_ok w fs \<longrightarrow>
           EnterScreenshotAsset (tmp_image_path w)
             (absolute_uri w (''/exporter?token='' @ access_token w))
             1920 ''.InsightCard'' \<in> set (trace (snd (export_to_png w a (start fs))))))"
  by (auto simp: render_target_def returnE_def intro!: export_to_png_enters)

theorem C9_witness:
  "(insight insight_asset \<noteq> None \<and> preflight_ok calm_world {} \<and>
    EnterScreenshotAsset ''/tmp/0f8fad5b.png'' ''https://app.example/exporter?token=tok&legend''
      800 ''.ExportedInsight'' \<in> set (trace (snd (export_to_png calm_world insight_asset (start {})))))
   \<and> (insight dashboard_asset = None \<and> dashboard dashboard_asset \<noteq> None \<and>
    EnterScreenshotAsset ''/tmp/0f8fad5b.png'' ''https://app.example/exporter?token=tok''
      1920 ''.InsightCard'' \<in> set (trace (snd (export_to_png calm_world dashboard_asset (start {})))))"
  using C9_render_target_by_kind [of insight_asset calm_world "''tok''" "start {}" "{}"]
    C9_render_target_by_kind [of dashboard_asset calm_world "''tok''" "start {}" "{}"]
  by (simp add: insight_asset_def dashboard_asset_def preflight_ok_def calm_world_def
      tmp_image_path_def TMP_DIR_def)

text \<open>
  C10: with both an insight and a dashboard set, the branch selection does not raise and
  takes the insight branch: legend flag, \<open>.ExportedInsight\<close>, width 800; and
  \<open>_screenshot_asset\<close> is entered with these arguments whenever the earlier steps pass.
\<close>

theorem C10_insight_takes_precedence:
  assumes "insight a \<noteq> None" and "dashboard a \<noteq> None"
  shows "render_target w a tok s
        = (Inr (absolute_uri w (''/exporter?token='' @ tok @ ''&legend''), ''.ExportedInsight'', 800), s)
      \<and> (preflight_ok w fs \<longrightarrow>
           EnterScreenshotAsset (tmp_image_path w)
             (absolute_uri w (''/exporter?token='' @ access_token w @ ''&legend''))
             800 ''.ExportedInsight'' \<in> set (trace (snd (export_to_png w a (start fs)))))"
  using assms by (auto simp: render_target_def returnE_def intro!: export_to_png_enters)

theorem C10_witness:
  "insight both_asset \<noteq> None \<and> dashboard both_asset \<noteq> None \<and> preflight_ok calm_world {} \<and>
   render_target calm_world both_asset ''tok'' (start {})
     = (Inr (''https://app.example/exporter?token=tok&legend'', ''.ExportedInsight'', 800), start {}) \<and>
   EnterScreenshotAsset ''/tmp/0f8fad5b.png'' ''https://app.example/exporter?token=tok&legend''
      800 ''.ExportedInsight'' \<in> set (trace (snd (export_to_png calm_world both_asset (start {}))))"
  using C10_insight_takes_precedence [of both_asset calm_world "''tok''" "start {}" "{}"]
  by (simp add: both_asset_def preflight_ok_def calm_world_def tmp_image_path_def TMP_DIR_def)

end
